theory Spec2Isabelle
  imports Complex_Main
begin

section \<open>Python values used by the Kinetics loader\<close>

text \<open>
  Every exception the loader can raise is a value. \<open>ParseError\<close> is the
  \<open>RuntimeError\<close> of \<open>_construct_loader\<close> (manifest path and the split fields),
  \<open>FetchError\<close> the \<open>RuntimeError\<close> at the end of \<open>__getitem__\<close>; its three
  arguments are the three values formatted into the message: the index, the
  video path of that index and the trial counter.
\<close>

datatype error =
    AssertionError
  | IndexError
  | KeyError
  | ValueError
  | TypeError
  | ZeroDivisionError
  | FileNotFoundError
  | UnboundLocalError
  | NotImplementedError
  | AttributeError
  | RecursionError
  | ParseError string "string list"
  | FetchError int string nat

text \<open>List subscript \<open>xs[i]\<close>: a negative index counts from the end, anything
  outside \<open>[-len, len)\<close> raises.\<close>

definition py_get :: "'a list \<Rightarrow> int \<Rightarrow> error + 'a" where
  "py_get xs i =
     (if 0 \<le> i \<and> i < int (length xs) then Inr (xs ! nat i)
      else if i < 0 \<and> - int (length xs) \<le> i then Inr (xs ! nat (int (length xs) + i))
      else Inl IndexError)"

section \<open>Configuration and dataset object\<close>

record cfg =
  DATA_PATH_TO_DATA_DIR :: string
  DATA_PATH_PREFIX :: string
  DATA_PATH_LABEL_SEPARATOR :: string
  DATA_LOADER_CHUNK_SIZE :: int
  DATA_SKIP_ROWS :: nat
  DATA_TRAIN_JITTER_SCALES :: "int list"
  DATA_TRAIN_CROP_SIZE :: int
  DATA_TEST_CROP_SIZE :: int
  TEST_NUM_SPATIAL_CROPS :: int
  MODEL_NUM_CLASSES :: int

type_synonym polygon = "(rat \<times> rat) list"
type_synonym kpts_store = "string \<rightharpoonup> (string \<rightharpoonup> polygon list)"

text \<open>
  The fields of a \<open>Kinetics\<close> instance. \<open>video_meta\<close> holds the keys of the
  \<open>_video_meta\<close> dictionary (its values belong to the decoder); \<open>kpts\<close> is the
  bounding-box cache, keyed by dataset index.
\<close>

record kinetics =
  mode :: string
  config :: cfg
  num_retries :: int
  skip_rows :: nat
  use_chunk_loading :: bool
  epoch :: int
  path_to_videos :: "string list"
  labels :: "int list"
  spatial_temporal_idx :: "int list"
  video_meta :: "int list"
  kpts :: "int \<rightharpoonup> kpts_store"

section \<open>Sampling-parameter selection (head of \<open>__getitem__\<close>)\<close>

record sampling =
  temporal_sample_index :: int
  spatial_sample_index :: int
  min_scale :: int
  max_scale :: int
  crop_size :: int

definition train_params :: "kinetics \<Rightarrow> error + sampling" where
  "train_params ds =
     (case py_get (DATA_TRAIN_JITTER_SCALES (config ds)) 0 of
        Inl e \<Rightarrow> Inl e
      | Inr mn \<Rightarrow>
         (case py_get (DATA_TRAIN_JITTER_SCALES (config ds)) 1 of
            Inl e \<Rightarrow> Inl e
          | Inr mx \<Rightarrow>
             (if mn \<noteq> mx then Inl AssertionError
              else if mx \<noteq> 256 then Inl AssertionError
              else Inr \<lparr>temporal_sample_index = - 1, spatial_sample_index = - 1,
                        min_scale = mn, max_scale = mx, crop_size = 256\<rparr>)))"

definition test_scales :: "kinetics \<Rightarrow> error + int \<times> int \<times> int" where
  "test_scales ds =
     (if TEST_NUM_SPATIAL_CROPS (config ds) > 1
      then Inr (DATA_TEST_CROP_SIZE (config ds), DATA_TEST_CROP_SIZE (config ds),
                DATA_TEST_CROP_SIZE (config ds))
      else (case py_get (DATA_TRAIN_JITTER_SCALES (config ds)) 0 of
              Inl e \<Rightarrow> Inl e
            | Inr s \<Rightarrow> Inr (s, s, DATA_TEST_CROP_SIZE (config ds))))"

definition test_params :: "kinetics \<Rightarrow> int \<Rightarrow> error + sampling" where
  "test_params ds index =
     (case py_get (spatial_temporal_idx ds) index of
        Inl e \<Rightarrow> Inl e
      | Inr st \<Rightarrow>
         (if TEST_NUM_SPATIAL_CROPS (config ds) = 0 then Inl ZeroDivisionError
          else
            (case test_scales ds of
               Inl e \<Rightarrow> Inl e
             | Inr (mn, mx, cs) \<Rightarrow>
                (if mn \<noteq> mx then Inl AssertionError
                 else Inr \<lparr>temporal_sample_index = st div TEST_NUM_SPATIAL_CROPS (config ds),
                           spatial_sample_index =
                             (if TEST_NUM_SPATIAL_CROPS (config ds) > 1
                              then st mod TEST_NUM_SPATIAL_CROPS (config ds) else 1),
                           min_scale = mn, max_scale = mx, crop_size = cs\<rparr>))))"

definition sampling_params :: "kinetics \<Rightarrow> int \<Rightarrow> error + sampling" where
  "sampling_params ds index =
     (if mode ds = ''train'' \<or> mode ds = ''val'' then train_params ds
      else if mode ds = ''test'' then test_params ds index
      else Inl NotImplementedError)"

section \<open>Strings: \<open>str.split\<close>, \<open>os.path.join\<close>, \<open>int\<close>, \<open>str\<close>\<close>

text \<open>\<open>s.split(sep)\<close> for a non-empty separator: the fields between the
  non-overlapping occurrences of \<open>sep\<close>, scanned from the left. An empty
  separator raises \<open>ValueError\<close>.\<close>

fun split_aux :: "string \<Rightarrow> string \<Rightarrow> string \<Rightarrow> string list" where
  "split_aux sep cur [] = [cur]"
| "split_aux sep cur (c # cs) =
     (if take (length sep) (c # cs) = sep
      then cur # split_aux sep [] (drop (length sep - 1) cs)
      else split_aux sep (cur @ [c]) cs)"











text \<open>\<open>str(n)\<close> of an integer: decimal, with a minus sign.\<close>

fun str_nat :: "nat \<Rightarrow> string" where
  "str_nat n =
     (if n < 10 then [''0123456789'' ! n]
      else str_nat (n div 10) @ [''0123456789'' ! (n mod 10)])"

definition str_int :: "int \<Rightarrow> string" where
  "str_int i = (if i < 0 then CHR ''-'' # str_nat (nat (- i)) else str_nat (nat i))"

section \<open>Manifest loading (\<open>__init__\<close>, \<open>_construct_loader\<close>, \<open>_get_chunk\<close>)\<close>

text \<open>
  What one \<open>pandas.read_csv\<close> plus the \<open>for chunk in ...: break\<close> does: the
  reader raises (\<open>Rejected\<close>), or it yields a sequence of chunks, each already
  flattened to its string values. The reader is given the number of reads made
  before on the same file handle and the row-skip offset.
\<close>

datatype read_result = Rejected | Chunks "string list list"

text \<open>
  \<open>_get_chunk\<close>. The first argument is the number of stack frames left before
  the interpreter raises \<open>RecursionError\<close>; the third counts the reads made so
  far. Returns the skip offset left in \<open>self.skip_rows\<close>, the number of reads
  and the rows.
\<close>

fun get_chunk ::
  "nat \<Rightarrow> (nat \<Rightarrow> nat \<Rightarrow> read_result) \<Rightarrow> nat \<Rightarrow> nat \<Rightarrow> nat \<times> nat \<times> (error + string list)" where
  "get_chunk 0 reader reads skip = (skip, reads, Inl RecursionError)"
| "get_chunk (Suc depth) reader reads skip =
     (case reader reads skip of
        Rejected \<Rightarrow> get_chunk depth reader (Suc reads) 0
      | Chunks [] \<Rightarrow> (skip, Suc reads, Inl UnboundLocalError)
      | Chunks (chunk # rest) \<Rightarrow> (skip, Suc reads, Inr chunk))"










definition num_videos :: "kinetics \<Rightarrow> nat" where
  "num_videos ds = length (path_to_videos ds)"


section \<open>Bounding-box alignment\<close>

text \<open>\<open>int(x)\<close> of a finite number truncates towards zero; \<open>min\<close> and \<open>max\<close> of
  a list run over it from the left and raise \<open>ValueError\<close> when it is empty.\<close>

definition py_trunc :: "rat \<Rightarrow> int" where
  "py_trunc q = (if 0 \<le> q then \<lfloor>q\<rfloor> else \<lceil>q\<rceil>)"

definition py_min :: "int list \<Rightarrow> error + int" where
  "py_min xs = (case xs of [] \<Rightarrow> Inl ValueError | x # rest \<Rightarrow> Inr (fold min rest x))"

definition py_max :: "int list \<Rightarrow> error + int" where
  "py_max xs = (case xs of [] \<Rightarrow> Inl ValueError | x # rest \<Rightarrow> Inr (fold max rest x))"

text \<open>The body of \<open>for box in bounding_boxes\<close>: the rectangle \<open>actual_pts\<close>
  of one polygon, corners as pairs.\<close>

definition align_box :: "polygon \<Rightarrow> error + (int \<times> int) list" where
  "align_box box =
     (let x_pts = map (\<lambda>coord. py_trunc (fst coord)) box;
          y_pts = map (\<lambda>coord. py_trunc (snd coord)) box
      in case py_min x_pts of Inl e \<Rightarrow> Inl e | Inr x_min \<Rightarrow>
         (case py_max x_pts of Inl e \<Rightarrow> Inl e | Inr x_max \<Rightarrow>
         (case py_min y_pts of Inl e \<Rightarrow> Inl e | Inr y_min \<Rightarrow>
         (case py_max y_pts of Inl e \<Rightarrow> Inl e | Inr y_max \<Rightarrow>
            Inr [(x_min, y_min), (x_max, y_min), (x_max, y_max), (x_min, y_max)]))))"

fun align_boxes :: "polygon list \<Rightarrow> error + (int \<times> int) list list" where
  "align_boxes [] = Inr []"
| "align_boxes (box # bounding_boxes) =
     (case align_box box of
        Inl e \<Rightarrow> Inl e
      | Inr actual_pts \<Rightarrow>
          (case align_boxes bounding_boxes of
             Inl e \<Rightarrow> Inl e
           | Inr small_bboxes \<Rightarrow> Inr (actual_pts # small_bboxes)))"

text \<open>The side file of a video and the key of a video in its store.\<close>

definition kpts_path :: "string \<Rightarrow> string" where
  "kpts_path index_str =
     ''./data/video'' @ drop 40 (take (length index_str - 10) index_str) @ ''_kpts''"

definition vid_name_of :: "string \<Rightarrow> string" where
  "vid_name_of p =
     (let vid_name = last (split_aux ''/'' [] p)
      in take (length vid_name - 10) vid_name @ ''.mp4'')"

text \<open>The loop \<open>for frame_num in bbox_index_decoded[0]\<close>.\<close>

fun align_frames ::
  "kpts_store \<Rightarrow> string \<Rightarrow> int list \<Rightarrow> error + (int \<times> int) list list list" where
  "align_frames store p [] = Inr []"
| "align_frames store p (frame_num # frame_nums) =
     (case store (vid_name_of p) of
        None \<Rightarrow> Inl KeyError
      | Some per_frame \<Rightarrow>
          (case per_frame (''frame'' @ str_int frame_num) of
             None \<Rightarrow> Inl KeyError
           | Some bounding_boxes \<Rightarrow>
               (case align_boxes bounding_boxes of
                  Inl e \<Rightarrow> Inl e
                | Inr small_bboxes \<Rightarrow>
                    (case align_frames store p frame_nums of
                       Inl e \<Rightarrow> Inl e
                     | Inr bboxes \<Rightarrow> Inr (small_bboxes # bboxes)))))"

section \<open>The fetch (\<open>__getitem__\<close>)\<close>

text \<open>
  The collaborators of a fetch, each given the attempt counter \<open>i_try\<close> so that
  its answer may change from one attempt to the next:
  \<open>get_video_container\<close> is \<open>None\<close> when the call raises or returns \<open>None\<close>;
  \<open>decode\<close> returns the frame list (\<open>None\<close>, or a list whose entries may be
  \<open>None\<close>) and the decoded frame numbers; \<open>random_draw\<close> is the entropy behind
  \<open>random.randint\<close>; \<open>pickle_file\<close> is the store read from a side file,
  \<open>None\<close> when the file cannot be opened. Frame tensors are opaque, and the
  tensor transforms after the label is chosen are not part of the model.
\<close>

type_synonym container = nat
type_synonym frame = nat

record decoded =
  frames :: "frame option list option"
  bbox_index :: "int list list"

record world =
  get_video_container :: "nat \<Rightarrow> string \<Rightarrow> container option"
  decode :: "nat \<Rightarrow> container \<Rightarrow> int \<Rightarrow> decoded"
  random_draw :: "nat \<Rightarrow> nat"
  pickle_file :: "string \<Rightarrow> kpts_store option"

record item =
  item_frames :: frame
  item_label :: int
  item_index :: int
  item_bboxes :: "(int \<times> int) list list list"

datatype outcome = Continue int | Raise error | Return item

text \<open>\<open>random.randint(a, b)\<close>: some integer of \<open>[a, b]\<close>; an empty range raises.\<close>

definition randint :: "world \<Rightarrow> nat \<Rightarrow> int \<Rightarrow> int \<Rightarrow> error + int" where
  "randint w i_try a b =
     (if b < a then Inl ValueError
      else Inr (a + int (random_draw w i_try mod nat (b - a + 1))))"

definition replace_index :: "kinetics \<Rightarrow> world \<Rightarrow> nat \<Rightarrow> outcome" where
  "replace_index ds w i_try =
     (case randint w i_try 0 (int (length (path_to_videos ds)) - 1) of
        Inl e \<Rightarrow> Raise e
      | Inr r \<Rightarrow> Continue r)"

text \<open>\<open>frames_decoded is None or None in frames_decoded\<close>, negated.\<close>

definition frames_valid :: "decoded \<Rightarrow> bool" where
  "frames_valid d = (case frames d of None \<Rightarrow> False | Some fs \<Rightarrow> None \<notin> set fs)"

text \<open>\<open>if index not in self.kpts: ...; kpts = self.kpts[index]\<close>.\<close>

definition load_kpts :: "kinetics \<Rightarrow> world \<Rightarrow> int \<Rightarrow> string \<Rightarrow> error + kinetics \<times> kpts_store" where
  "load_kpts ds w index index_str =
     (case kpts ds index of
        Some store \<Rightarrow> Inr (ds, store)
      | None \<Rightarrow>
          (case pickle_file w (kpts_path index_str) of
             None \<Rightarrow> Inl FileNotFoundError
           | Some store \<Rightarrow> Inr (ds\<lparr>kpts := (kpts ds)(index \<mapsto> store)\<rparr>, store)))"

text \<open>\<open>torch.Tensor(bboxes)\<close> on the list of the rectangles of each frame:
  every rectangle is four corners of two numbers, so the nested list is a
  tensor exactly when every frame has the same number of rectangles; otherwise
  the constructor raises \<open>ValueError\<close>.\<close>

definition tensor_of :: "(int \<times> int) list list list \<Rightarrow> error + (int \<times> int) list list list" where
  "tensor_of bboxes =
     (case bboxes of
        [] \<Rightarrow> Inr []
      | small_bboxes # rest \<Rightarrow>
          if list_all (\<lambda>b. length b = length small_bboxes) rest then Inr bboxes
          else Inl ValueError)"

text \<open>The part of an attempt after the validation of the decoded frames.\<close>

definition finish :: "kinetics \<Rightarrow> kpts_store \<Rightarrow> decoded \<Rightarrow> int \<Rightarrow> string \<Rightarrow> outcome" where
  "finish ds store d index p =
     (case py_get (bbox_index d) 0 of
        Inl e \<Rightarrow> Raise e
      | Inr frame_nums \<Rightarrow>
          (case align_frames store p frame_nums of
             Inl e \<Rightarrow> Raise e
           | Inr bboxes \<Rightarrow>
               (case py_get (labels ds) index of
                  Inl e \<Rightarrow> Raise e
                | Inr label \<Rightarrow>
                    (case frames d of
                       None \<Rightarrow> Raise TypeError
                     | Some fs \<Rightarrow>
                         (case py_get fs 0 of
                            Inr (Some f) \<Rightarrow>
                              (case tensor_of bboxes of
                                 Inl e \<Rightarrow> Raise e
                               | Inr t \<Rightarrow>
                                   Return \<lparr>item_frames = f,
                                           item_label =
                                             (if MODEL_NUM_CLASSES (config ds) = 2 \<and> label > 0
                                              then 1 else label),
                                           item_index = index, item_bboxes = t\<rparr>)
                          | Inr None \<Rightarrow> Raise AttributeError
                          | Inl e \<Rightarrow> Raise e)))))"

text \<open>What follows a failed validation of the decoded frames.\<close>

definition after_decode_failure :: "kinetics \<Rightarrow> world \<Rightarrow> nat \<Rightarrow> int \<Rightarrow> outcome" where
  "after_decode_failure ds w i_try index =
     (if mode ds \<noteq> ''test'' then
        (if num_retries ds div 8 = 0 then Raise ZeroDivisionError
         else if int i_try mod (num_retries ds div 8) = 0 then replace_index ds w i_try
         else Continue index)
      else Continue index)"

text \<open>What follows a container that could not be acquired.\<close>

definition after_container_failure :: "kinetics \<Rightarrow> world \<Rightarrow> nat \<Rightarrow> int \<Rightarrow> outcome" where
  "after_container_failure ds w i_try index =
     (if mode ds \<noteq> ''test'' \<and> int i_try > num_retries ds div 8 then replace_index ds w i_try
      else Continue index)"

text \<open>One iteration of \<open>for i_try in range(self._num_retries)\<close>: the dataset
  (its cache may have grown) and how the iteration ends.\<close>

definition attempt :: "kinetics \<Rightarrow> world \<Rightarrow> sampling \<Rightarrow> nat \<Rightarrow> int \<Rightarrow> kinetics \<times> outcome" where
  "attempt ds w sp i_try index =
     (case py_get (path_to_videos ds) index of
        Inl e \<Rightarrow> (ds, Raise e)
      | Inr p \<Rightarrow>
          (case get_video_container w i_try p of
             None \<Rightarrow> (ds, after_container_failure ds w i_try index)
           | Some video_container \<Rightarrow>
               (if length (video_meta ds) < 5000000 \<and> index \<notin> set (video_meta ds)
                then (ds, Raise KeyError)
                else
                  (case load_kpts ds w index p of
                     Inl e \<Rightarrow> (ds, Raise e)
                   | Inr (ds', store) \<Rightarrow>
                       (if \<not> frames_valid (decode w i_try video_container (temporal_sample_index sp))
                        then (ds', after_decode_failure ds' w i_try index)
                        else (ds', finish ds' store
                                     (decode w i_try video_container (temporal_sample_index sp))
                                     index p))))))"

text \<open>The \<open>else\<close> of the loop: the arguments of the message are evaluated from
  the left, and \<open>i_try\<close> is unbound when the loop never ran.\<close>

definition exhausted :: "kinetics \<Rightarrow> nat \<Rightarrow> int \<Rightarrow> error" where
  "exhausted ds done index =
     (case py_get (path_to_videos ds) index of
        Inl e \<Rightarrow> e
      | Inr p \<Rightarrow> if done = 0 then UnboundLocalError else FetchError index p (done - 1))"

text \<open>The loop, with the number of iterations left, the counter \<open>i_try\<close>, the
  current index and the indices of the iterations made so far.\<close>

fun retry_loop ::
  "kinetics \<Rightarrow> world \<Rightarrow> sampling \<Rightarrow> nat \<Rightarrow> nat \<Rightarrow> int \<Rightarrow> int list
     \<Rightarrow> kinetics \<times> int list \<times> (error + item)" where
  "retry_loop ds w sp 0 i_try index tried = (ds, tried, Inl (exhausted ds i_try index))"
| "retry_loop ds w sp (Suc left) i_try index tried =
     (case attempt ds w sp i_try index of
        (ds', Continue index') \<Rightarrow> retry_loop ds' w sp left (Suc i_try) index' (tried @ [index])
      | (ds', Raise e) \<Rightarrow> (ds', tried @ [index], Inl e)
      | (ds', Return r) \<Rightarrow> (ds', tried @ [index], Inr r))"

definition getitem :: "kinetics \<Rightarrow> world \<Rightarrow> int \<Rightarrow> kinetics \<times> int list \<times> (error + item)" where
  "getitem ds w index =
     (case sampling_params ds index of
        Inl e \<Rightarrow> (ds, [], Inl e)
      | Inr sp \<Rightarrow> retry_loop ds w sp (nat (num_retries ds)) 0 index [])"

section \<open>The state of a constructed dataset\<close>

text \<open>What \<open>__init__\<close> leaves behind, as a predicate on the instance: the three
  lists are equally long and not empty, and \<open>_video_meta\<close> has one key per
  entry. \<open>valid_index\<close> is an index as the sampler hands it to the fetch.\<close>

definition constructed :: "kinetics \<Rightarrow> bool" where
  "constructed ds =
     (path_to_videos ds \<noteq> []
      \<and> length (labels ds) = length (path_to_videos ds)
      \<and> length (spatial_temporal_idx ds) = length (path_to_videos ds)
      \<and> video_meta ds = map int [0..<length (path_to_videos ds)])"

definition valid_index :: "kinetics \<Rightarrow> int \<Rightarrow> bool" where
  "valid_index ds index = (0 \<le> index \<and> index < int (num_videos ds))"

text \<open>\<open>unchanged ds ds'\<close>: every field but the bounding-box cache, the skip
  offset and the epoch is the same in both.\<close>

definition unchanged :: "kinetics \<Rightarrow> kinetics \<Rightarrow> bool" where
  "unchanged ds ds' =
     (path_to_videos ds' = path_to_videos ds \<and> labels ds' = labels ds
      \<and> spatial_temporal_idx ds' = spatial_temporal_idx ds \<and> video_meta ds' = video_meta ds
      \<and> mode ds' = mode ds \<and> config ds' = config ds \<and> num_retries ds' = num_retries ds)"


section \<open>The claimed behaviour, for comparison with the code\<close>




section \<open>Concrete datasets and collaborators\<close>

definition base_cfg :: cfg where
  "base_cfg =
     \<lparr>DATA_PATH_TO_DATA_DIR = ''data'', DATA_PATH_PREFIX = ''videos'',
      DATA_PATH_LABEL_SEPARATOR = '','', DATA_LOADER_CHUNK_SIZE = 0, DATA_SKIP_ROWS = 0,
      DATA_TRAIN_JITTER_SCALES = [256, 256], DATA_TRAIN_CROP_SIZE = 224,
      DATA_TEST_CROP_SIZE = 256, TEST_NUM_SPATIAL_CROPS = 3, MODEL_NUM_CLASSES = 2\<rparr>"

definition mk_ds :: "string \<Rightarrow> cfg \<Rightarrow> int \<Rightarrow> string list \<Rightarrow> int list \<Rightarrow> int list \<Rightarrow> kinetics" where
  "mk_ds m c n ps ls sts =
     \<lparr>mode = m, config = c, num_retries = n, skip_rows = 0, use_chunk_loading = False,
      epoch = 0, path_to_videos = ps, labels = ls, spatial_temporal_idx = sts,
      video_meta = map int [0..<length ps], kpts = Map.empty\<rparr>"

text \<open>Readers: one that rejects every read, one that accepts the third read,
  one that rejects a skip offset beyond its single row.\<close>

definition rejecting_reader :: "nat \<Rightarrow> nat \<Rightarrow> read_result" where
  "rejecting_reader reads skip = Rejected"

definition third_time_reader :: "nat \<Rightarrow> nat \<Rightarrow> read_result" where
  "third_time_reader reads skip = (if reads < 2 then Rejected else Chunks [[''a.mp4,3'']])"

definition skip_limit_reader :: "nat \<Rightarrow> nat \<Rightarrow> read_result" where
  "skip_limit_reader reads skip = (if skip > 1 then Rejected else Chunks [[''a.mp4,3'']])"



text \<open>Datasets of two videos, the sampling parameters of train and val mode,
  and collaborators: \<open>closed_world\<close> never yields a container,
  \<open>null_world\<close> always decodes to a null frame list, \<open>decoding_world\<close>
  always decodes one frame and reads the side files it is given.\<close>

definition two_paths :: "string list" where
  "two_paths = [''videos/a.mp4'', ''videos/b.mp4'']"

definition null_decoded :: decoded where
  "null_decoded = \<lparr>frames = None, bbox_index = []\<rparr>"

definition closed_world :: world where
  "closed_world =
     \<lparr>get_video_container = (\<lambda>i p. None), decode = (\<lambda>i c t. null_decoded),
      random_draw = (\<lambda>i. if i = 15 then 1 else 0), pickle_file = (\<lambda>p. None)\<rparr>"

definition box_store :: kpts_store where
  "box_store = [''vide.mp4'' \<mapsto> [''frame4'' \<mapsto> [[(2, 7), (8, 3), (5, 10)]]]]"

definition null_world :: world where
  "null_world =
     \<lparr>get_video_container = (\<lambda>i p. Some 0), decode = (\<lambda>i c t. null_decoded),
      random_draw = (\<lambda>i. 1), pickle_file = (\<lambda>p. Some box_store)\<rparr>"

definition train_ds16 :: kinetics where
  "train_ds16 = mk_ds ''train'' base_cfg 16 two_paths [3, 0] [0, 0]"

definition train_ds4 :: kinetics where
  "train_ds4 = mk_ds ''train'' base_cfg 4 two_paths [3, 0] [0, 0]"

definition test_ds16 :: kinetics where
  "test_ds16 = mk_ds ''test'' base_cfg 16 two_paths [3, 0] [0, 0]"

definition train_sp :: sampling where
  "train_sp = \<lparr>temporal_sample_index = - 1, spatial_sample_index = - 1,
                min_scale = 256, max_scale = 256, crop_size = 256\<rparr>"

definition long_path :: string where
  "long_path = ''/home/psriram2/SlowFast/data/clips/video93_00012.mp4''"

definition clip_ds :: kinetics where
  "clip_ds = mk_ds ''val'' base_cfg 16 [long_path] [3] [0]"

definition good_decoded :: decoded where
  "good_decoded = \<lparr>frames = Some [Some 7], bbox_index = [[4]]\<rparr>"

definition decoding_world :: "(string \<Rightarrow> kpts_store option) \<Rightarrow> world" where
  "decoding_world files =
     \<lparr>get_video_container = (\<lambda>i p. Some 0), decode = (\<lambda>i c t. good_decoded),
      random_draw = (\<lambda>i. 0), pickle_file = files\<rparr>"

definition no_files :: "string \<Rightarrow> kpts_store option" where
  "no_files p = None"

definition files_with :: "kpts_store \<Rightarrow> string \<Rightarrow> kpts_store option" where
  "files_with store p = (if p = ''./data/video93_kpts'' then Some store else None)"

definition frameless_store :: kpts_store where
  "frameless_store = [''video93.mp4'' \<mapsto> Map.empty]"







section \<open>Sampling-parameter selection\<close>

text \<open>
  C3. In test mode, for a requested index whose stored spatial-temporal index is
  \<open>st\<close>, the selection computes \<open>temporal_sample_index = st // NUM_SPATIAL_CROPS\<close>
  and \<open>spatial_sample_index = st % NUM_SPATIAL_CROPS\<close> when \<open>NUM_SPATIAL_CROPS > 1\<close>,
  the constant 1 otherwise; it returns whenever \<open>NUM_SPATIAL_CROPS > 1\<close> or the
  jitter range is not empty. Stored index 5 with three spatial crops gives
  temporal index 1 and spatial index 2; with one spatial crop the spatial index
  is 1 whatever the stored index.
\<close>

theorem test_sampling_indices:
  assumes "mode ds = ''test''"
    and "py_get (spatial_temporal_idx ds) index = Inr st"
    and "TEST_NUM_SPATIAL_CROPS (config ds) \<noteq> 0"
  shows "(TEST_NUM_SPATIAL_CROPS (config ds) > 1 \<or> DATA_TRAIN_JITTER_SCALES (config ds) \<noteq> []
            \<longrightarrow> (\<exists>sp. sampling_params ds index = Inr sp))
       \<and> (\<forall>sp. sampling_params ds index = Inr sp \<longrightarrow>
             temporal_sample_index sp = st div TEST_NUM_SPATIAL_CROPS (config ds)
           \<and> spatial_sample_index sp =
               (if TEST_NUM_SPATIAL_CROPS (config ds) > 1
                then st mod TEST_NUM_SPATIAL_CROPS (config ds) else 1))
       \<and> (\<forall>sp. sampling_params ds index = Inr sp \<and> st = 5 \<and> TEST_NUM_SPATIAL_CROPS (config ds) = 3
             \<longrightarrow> temporal_sample_index sp = 1 \<and> spatial_sample_index sp = 2)
       \<and> (\<forall>sp. sampling_params ds index = Inr sp \<and> TEST_NUM_SPATIAL_CROPS (config ds) = 1
             \<longrightarrow> spatial_sample_index sp = 1)"
  using assms
  by (auto simp: sampling_params_def test_params_def test_scales_def py_get_def
           split: sum.splits if_splits)

theorem test_sampling_indices_witness:
  "sampling_params (mk_ds ''test'' base_cfg 100 [''a.mp4''] [1] [5]) 0 =
     Inr \<lparr>temporal_sample_index = 1, spatial_sample_index = 2,
          min_scale = 256, max_scale = 256, crop_size = 256\<rparr>
   \<and> temporal_sample_index \<lparr>temporal_sample_index = 1, spatial_sample_index = 2,
          min_scale = 256, max_scale = 256, crop_size = 256\<rparr> = 5 div 3"
  using test_sampling_indices [of "mk_ds ''test'' base_cfg 100 [''a.mp4''] [1] [5]" 0 5]
  by (simp add: mk_ds_def base_cfg_def sampling_params_def test_params_def test_scales_def
        py_get_def)

text \<open>
  C4, as the code has it. In train and val modes the selection sets both sample
  indices to \<open>-1\<close> and takes \<open>min_scale\<close> and \<open>max_scale\<close> from the configured
  jitter range; the crop size is the constant 256, not a value of the
  configuration, and the selection fails an assertion unless
  \<open>min_scale = max_scale = 256\<close>.
\<close>

theorem train_val_sampling:
  assumes "mode ds = ''train'' \<or> mode ds = ''val''"
  shows "(\<forall>sp. sampling_params ds index = Inr sp \<longrightarrow>
             temporal_sample_index sp = - 1 \<and> spatial_sample_index sp = - 1
           \<and> py_get (DATA_TRAIN_JITTER_SCALES (config ds)) 0 = Inr (min_scale sp)
           \<and> py_get (DATA_TRAIN_JITTER_SCALES (config ds)) 1 = Inr (max_scale sp)
           \<and> crop_size sp = 256)
       \<and> (\<forall>mn mx. py_get (DATA_TRAIN_JITTER_SCALES (config ds)) 0 = Inr mn
                \<and> py_get (DATA_TRAIN_JITTER_SCALES (config ds)) 1 = Inr mx \<longrightarrow>
             sampling_params ds index =
               (if mn = mx \<and> mx = 256
                then Inr \<lparr>temporal_sample_index = - 1, spatial_sample_index = - 1,
                          min_scale = mn, max_scale = mx, crop_size = 256\<rparr>
                else Inl AssertionError))"
  using assms
  by (auto simp: sampling_params_def train_params_def split: sum.splits if_splits)

theorem train_val_sampling_witness:
  "sampling_params (mk_ds ''val'' base_cfg 100 [''a.mp4''] [1] [0]) 0 =
     Inr \<lparr>temporal_sample_index = - 1, spatial_sample_index = - 1,
          min_scale = 256, max_scale = 256, crop_size = 256\<rparr>"
  using train_val_sampling [of "mk_ds ''val'' base_cfg 100 [''a.mp4''] [1] [0]" 0]
  by (simp add: mk_ds_def base_cfg_def py_get_def)

text \<open>
  With \<open>TRAIN_CROP_SIZE = 224\<close> configured, a jitter range of \<open>[256, 256]\<close> is
  accepted with crop size 256, and a jitter range of \<open>[224, 224]\<close>, equal to the
  configured crop size, fails the assertion.
\<close>

theorem crop_size_from_config_counterexample:
  "DATA_TRAIN_CROP_SIZE base_cfg = 224
   \<and> sampling_params (mk_ds ''train'' base_cfg 100 [''a.mp4''] [1] [0]) 0 =
       Inr \<lparr>temporal_sample_index = - 1, spatial_sample_index = - 1,
            min_scale = 256, max_scale = 256, crop_size = 256\<rparr>
   \<and> sampling_params
       (mk_ds ''train'' (base_cfg\<lparr>DATA_TRAIN_JITTER_SCALES := [224, 224]\<rparr>) 100
          [''a.mp4''] [1] [0]) 0
       = Inl AssertionError"
  by (simp add: mk_ds_def base_cfg_def sampling_params_def train_params_def py_get_def)

section \<open>Bounding-box alignment\<close>







section \<open>Chunked ingestion\<close>

lemma get_chunk_all_rejected:
  "(\<forall>k s. reader k s = Rejected) \<Longrightarrow>
     get_chunk depth reader reads skip =
       ((if depth = 0 then skip else 0), reads + depth, Inl RecursionError)"
proof (induction depth arbitrary: reads skip)
  case 0
  then show ?case by simp
next
  case (Suc depth)
  then show ?case by (cases depth) simp_all
qed

text \<open>
  C8, as the code has it. When the reader rejects the current skip offset, the
  chunk loader resets the offset to zero and reads again; when that second read
  yields a chunk, the operation ends after exactly two reads with that chunk and
  the offset left at zero. The loader itself puts no bound on the retries: every
  further rejection is followed by another read with offset zero, and a reader
  that rejects every read is read once per available stack frame, after which
  the operation fails with \<open>RecursionError\<close>.
\<close>

theorem get_chunk_retry:
  assumes "reader reads skip = Rejected"
  shows "get_chunk (Suc depth) reader reads skip = get_chunk depth reader (Suc reads) 0
       \<and> (reader (Suc reads) 0 = Chunks (chunk # rest) \<longrightarrow>
             get_chunk (Suc (Suc depth)) reader reads skip = (0, reads + 2, Inr chunk))
       \<and> ((\<forall>k s. reader k s = Rejected) \<longrightarrow>
             get_chunk (Suc depth) reader reads skip = (0, reads + Suc depth, Inl RecursionError))"
  using assms get_chunk_all_rejected [of reader "Suc depth" reads skip] by auto

theorem get_chunk_retry_witness:
  "skip_limit_reader 0 3 = Rejected
   \<and> get_chunk 1000 skip_limit_reader 0 3 = (0, 2, Inr [''a.mp4,3''])
   \<and> (\<forall>k s. rejecting_reader k s = Rejected)
   \<and> get_chunk 8 rejecting_reader 0 3 = (0, 8, Inl RecursionError)"
proof -
  have a: "skip_limit_reader 0 3 = Rejected"
    by (simp add: skip_limit_reader_def)
  have b: "skip_limit_reader (Suc 0) 0 = Chunks [[''a.mp4,3'']]"
    by (simp add: skip_limit_reader_def)
  have r: "\<forall>k s. rejecting_reader k s = Rejected"
    by (simp add: rejecting_reader_def)
  have "get_chunk (Suc (Suc 998)) skip_limit_reader 0 3 = (0, 0 + 2, Inr [''a.mp4,3''])"
    using get_chunk_retry [of skip_limit_reader 0 3 998 "[''a.mp4,3'']" "[]"] a b by blast
  moreover have "get_chunk (Suc 7) rejecting_reader 0 3 = (0, 0 + Suc 7, Inl RecursionError)"
    using get_chunk_retry [of rejecting_reader 0 3 7 "[]" "[]"] r by blast
  ultimately show ?thesis
    using a r by simp
qed

text \<open>
  A reader that rejects the first two reads and accepts the third is read three
  times before the chunk is returned; a reader that rejects every read is read
  five times when five stack frames are left, and the operation is fatal.
\<close>

theorem get_chunk_two_reads_counterexample:
  "get_chunk 1000 third_time_reader 0 3 = (0, 3, Inr [''a.mp4,3''])
   \<and> get_chunk 5 rejecting_reader 0 3 = (0, 5, Inl RecursionError)"
  by (simp add: third_time_reader_def rejecting_reader_def eval_nat_numeral)

section \<open>Manifest loading\<close>



















lemma unchanged_refl: "unchanged ds ds"
  by (simp add: unchanged_def)

lemma unchanged_trans: "unchanged a b \<Longrightarrow> unchanged b c \<Longrightarrow> unchanged a c"
  by (simp add: unchanged_def)

lemma load_kpts_unchanged: "load_kpts ds w index p = Inr (ds', store) \<Longrightarrow> unchanged ds ds'"
  by (auto simp: load_kpts_def unchanged_def split: option.splits)




lemma unchanged_constructed: "unchanged ds ds' \<Longrightarrow> constructed ds \<Longrightarrow> constructed ds'"
  by (simp add: unchanged_def constructed_def)




section \<open>The fetch: one attempt, and the loop\<close>

lemma py_get_valid:
  "valid_index ds index \<Longrightarrow>
     py_get (path_to_videos ds) index = Inr (path_to_videos ds ! nat index)"
  by (simp add: valid_index_def num_videos_def py_get_def)

lemma valid_index_unchanged: "unchanged ds ds' \<Longrightarrow> valid_index ds' index = valid_index ds index"
  by (simp add: unchanged_def valid_index_def num_videos_def)

lemma replace_index_eq:
  "path_to_videos ds \<noteq> [] \<Longrightarrow>
     replace_index ds w i = Continue (int (random_draw w i mod length (path_to_videos ds)))"
  by (simp add: replace_index_def randint_def nat_add_distrib)

lemma random_index_valid:
  "path_to_videos ds \<noteq> [] \<Longrightarrow>
     valid_index ds (int (random_draw w i mod length (path_to_videos ds)))"
  by (simp add: valid_index_def num_videos_def)


lemma attempt_container_failure:
  "py_get (path_to_videos ds) index = Inr p \<Longrightarrow> get_video_container w i p = None \<Longrightarrow>
     attempt ds w sp i index = (ds, after_container_failure ds w i index)"
  by (simp add: attempt_def)

lemma attempt_decode_failure:
  "py_get (path_to_videos ds) index = Inr p \<Longrightarrow> get_video_container w i p = Some c \<Longrightarrow>
   index \<in> set (video_meta ds) \<or> 5000000 \<le> length (video_meta ds) \<Longrightarrow>
   load_kpts ds w index p = Inr (ds', store) \<Longrightarrow>
   \<not> frames_valid (decode w i c (temporal_sample_index sp)) \<Longrightarrow>
     attempt ds w sp i index = (ds', after_decode_failure ds' w i index)"
  by (auto simp: attempt_def)

lemma attempt_decode_success:
  "py_get (path_to_videos ds) index = Inr p \<Longrightarrow> get_video_container w i p = Some c \<Longrightarrow>
   index \<in> set (video_meta ds) \<or> 5000000 \<le> length (video_meta ds) \<Longrightarrow>
   load_kpts ds w index p = Inr (ds', store) \<Longrightarrow>
   frames_valid (decode w i c (temporal_sample_index sp)) \<Longrightarrow>
     attempt ds w sp i index =
       (ds', finish ds' store (decode w i c (temporal_sample_index sp)) index p)"
  by (auto simp: attempt_def)


lemma retry_loop_raise:
  "attempt ds w sp i index = (ds', Raise e) \<Longrightarrow>
     retry_loop ds w sp (Suc left) i index tried = (ds', tried @ [index], Inl e)"
  by simp


lemma retry_loop_length:
  "retry_loop ds w sp left i index tried = (ds', tried', r) \<Longrightarrow>
     length tried' \<le> length tried + left"
proof (induction left arbitrary: ds i index tried)
  case 0
  then show ?case by auto
next
  case (Suc left)
  obtain ds1 out where att: "attempt ds w sp i index = (ds1, out)"
    by (cases "attempt ds w sp i index")
  show ?case
  proof (cases out)
    case (Continue index')
    from Suc.prems att Continue
    have "retry_loop ds1 w sp left (Suc i) index' (tried @ [index]) = (ds', tried', r)"
      by simp
    from Suc.IH [OF this] show ?thesis by simp
  next
    case (Raise e)
    with Suc.prems att show ?thesis by auto
  next
    case (Return it)
    with Suc.prems att show ?thesis by auto
  qed
qed

lemma exhausted_valid:
  "valid_index ds index \<Longrightarrow> 0 < n \<Longrightarrow>
     exhausted ds n index = FetchError index (path_to_videos ds ! nat index) (n - 1)"
  by (simp add: exhausted_def py_get_valid)

lemma constructed_meta: "constructed ds \<Longrightarrow> valid_index ds index \<Longrightarrow> index \<in> set (video_meta ds)"
  by (auto simp: constructed_def valid_index_def num_videos_def intro!: image_eqI [of _ _ "nat index"])

lemma after_container_failure_continue:
  "path_to_videos ds \<noteq> [] \<Longrightarrow> valid_index ds index \<Longrightarrow>
     \<exists>index'. after_container_failure ds w i index = Continue index' \<and> valid_index ds index'
        \<and> (mode ds = ''test'' \<longrightarrow> index' = index)"
  by (simp add: after_container_failure_def replace_index_eq random_index_valid)

lemma after_decode_failure_continue:
  "path_to_videos ds \<noteq> [] \<Longrightarrow> valid_index ds index \<Longrightarrow>
   mode ds = ''test'' \<or> 8 \<le> num_retries ds \<Longrightarrow>
     \<exists>index'. after_decode_failure ds w i index = Continue index' \<and> valid_index ds index'
        \<and> (mode ds = ''test'' \<longrightarrow> index' = index)"
  by (auto simp: after_decode_failure_def replace_index_eq random_index_valid)

lemma load_kpts_available:
  "kpts ds index \<noteq> None \<or> pickle_file w (kpts_path p) \<noteq> None \<Longrightarrow>
     \<exists>ds' store. load_kpts ds w index p = Inr (ds', store)"
  by (auto simp: load_kpts_def split: option.splits)

lemma attempt_fail_step:
  assumes con: "constructed ds" and vi: "valid_index ds index"
    and fail: "case get_video_container w i (path_to_videos ds ! nat index) of
                 None \<Rightarrow> True
               | Some c \<Rightarrow> \<not> frames_valid (decode w i c (temporal_sample_index sp))"
    and side: "get_video_container w i (path_to_videos ds ! nat index) = None
               \<or> ((mode ds = ''test'' \<or> 8 \<le> num_retries ds)
                  \<and> pickle_file w (kpts_path (path_to_videos ds ! nat index)) \<noteq> None)"
  shows "\<exists>ds' index'. attempt ds w sp i index = (ds', Continue index')
           \<and> valid_index ds index' \<and> unchanged ds ds'
           \<and> (mode ds = ''test'' \<longrightarrow> index' = index)"
proof -
  let ?p = "path_to_videos ds ! nat index"
  have pg: "py_get (path_to_videos ds) index = Inr ?p" using vi by (rule py_get_valid)
  have ne: "path_to_videos ds \<noteq> []" using con by (simp add: constructed_def)
  show ?thesis
  proof (cases "get_video_container w i ?p")
    case None
    from after_container_failure_continue [OF ne vi, of w i] obtain index' where
      "after_container_failure ds w i index = Continue index'" "valid_index ds index'"
      "mode ds = ''test'' \<longrightarrow> index' = index" by blast
    with attempt_container_failure [OF pg None, of sp] show ?thesis
      by (auto simp: unchanged_refl)
  next
    case (Some c)
    with fail have nv: "\<not> frames_valid (decode w i c (temporal_sample_index sp))" by simp
    from Some side have budget: "mode ds = ''test'' \<or> 8 \<le> num_retries ds"
      and sidefile: "pickle_file w (kpts_path ?p) \<noteq> None" by auto
    from load_kpts_available [of ds index w ?p] sidefile obtain ds' store where
      lk: "load_kpts ds w index ?p = Inr (ds', store)" by blast
    have u: "unchanged ds ds'" using lk by (rule load_kpts_unchanged)
    have meta: "index \<in> set (video_meta ds) \<or> 5000000 \<le> length (video_meta ds)"
      using constructed_meta [OF con vi] by simp
    have ne': "path_to_videos ds' \<noteq> []" and vi': "valid_index ds' index"
      and budget': "mode ds' = ''test'' \<or> 8 \<le> num_retries ds'"
      using u ne vi budget by (simp_all add: unchanged_def valid_index_def num_videos_def)
    from after_decode_failure_continue [OF ne' vi' budget', of w i] obtain index' where
      "after_decode_failure ds' w i index = Continue index'" "valid_index ds' index'"
      "mode ds' = ''test'' \<longrightarrow> index' = index" by blast
    with attempt_decode_failure [OF pg Some meta lk nv] u show ?thesis
      by (auto simp: unchanged_def valid_index_def num_videos_def)
  qed
qed

lemma retry_loop_exhausts:
  assumes "constructed ds" and "valid_index ds index"
    and "\<forall>i index'. valid_index ds index' \<longrightarrow>
           (case get_video_container w i (path_to_videos ds ! nat index') of
              None \<Rightarrow> True
            | Some c \<Rightarrow> \<not> frames_valid (decode w i c (temporal_sample_index sp)))"
    and "(\<forall>i p. get_video_container w i p = None)
         \<or> ((mode ds = ''test'' \<or> 8 \<le> num_retries ds)
            \<and> (\<forall>index'. valid_index ds index' \<longrightarrow>
                  pickle_file w (kpts_path (path_to_videos ds ! nat index')) \<noteq> None))"
  shows "\<exists>ds' extra index'.
           retry_loop ds w sp left i index tried
             = (ds', tried @ extra, Inl (exhausted ds' (i + left) index'))
         \<and> length extra = left \<and> valid_index ds index' \<and> unchanged ds ds'
         \<and> (mode ds = ''test'' \<longrightarrow> index' = index \<and> set extra \<subseteq> {index})"
  using assms
proof (induction left arbitrary: ds i index tried)
  case 0
  then show ?case by (auto simp: unchanged_refl)
next
  case (Suc left)
  have fail: "case get_video_container w i (path_to_videos ds ! nat index) of
                 None \<Rightarrow> True
               | Some c \<Rightarrow> \<not> frames_valid (decode w i c (temporal_sample_index sp))"
    using Suc.prems(2,3) by blast
  have side: "get_video_container w i (path_to_videos ds ! nat index) = None
               \<or> ((mode ds = ''test'' \<or> 8 \<le> num_retries ds)
                  \<and> pickle_file w (kpts_path (path_to_videos ds ! nat index)) \<noteq> None)"
    using Suc.prems(2,4) by blast
  from attempt_fail_step [OF Suc.prems(1,2) fail side] obtain ds1 index1 where
    att: "attempt ds w sp i index = (ds1, Continue index1)"
    and v1: "valid_index ds index1" and u1: "unchanged ds ds1"
    and t1: "mode ds = ''test'' \<longrightarrow> index1 = index" by blast
  have same: "path_to_videos ds1 = path_to_videos ds" "mode ds1 = mode ds"
      "num_retries ds1 = num_retries ds" "\<And>j. valid_index ds1 j = valid_index ds j"
    using u1 by (simp_all add: unchanged_def valid_index_def num_videos_def)
  have c1: "constructed ds1" using u1 Suc.prems(1) by (rule unchanged_constructed)
  have v1': "valid_index ds1 index1" using v1 same by simp
  have h3: "\<forall>i index'. valid_index ds1 index' \<longrightarrow>
           (case get_video_container w i (path_to_videos ds1 ! nat index') of
              None \<Rightarrow> True
            | Some c \<Rightarrow> \<not> frames_valid (decode w i c (temporal_sample_index sp)))"
    using Suc.prems(3) same by simp
  have h4: "(\<forall>i p. get_video_container w i p = None)
         \<or> ((mode ds1 = ''test'' \<or> 8 \<le> num_retries ds1)
            \<and> (\<forall>index'. valid_index ds1 index' \<longrightarrow>
                  pickle_file w (kpts_path (path_to_videos ds1 ! nat index')) \<noteq> None))"
    using Suc.prems(4) same by simp
  from Suc.IH [OF c1 v1' h3 h4, of "Suc i" "tried @ [index]"] obtain ds' extra index' where
    run: "retry_loop ds1 w sp left (Suc i) index1 (tried @ [index])
             = (ds', (tried @ [index]) @ extra, Inl (exhausted ds' (Suc i + left) index'))"
    and rest: "length extra = left" "valid_index ds1 index'" "unchanged ds1 ds'"
      "mode ds1 = ''test'' \<longrightarrow> index' = index1 \<and> set extra \<subseteq> {index1}"
    by blast
  have "retry_loop ds w sp (Suc left) i index tried
          = (ds', tried @ (index # extra), Inl (exhausted ds' (i + Suc left) index'))"
    using att run by simp
  moreover have "length (index # extra) = Suc left" using rest(1) by simp
  moreover have "valid_index ds index'" using rest(2) same by simp
  moreover have "unchanged ds ds'" using u1 rest(3) by (rule unchanged_trans)
  moreover have "mode ds = ''test'' \<longrightarrow> index' = index \<and> set (index # extra) \<subseteq> {index}"
    using rest(4) t1 same by auto
  ultimately show ?case by blast
qed

lemma getitem_length: "length (fst (snd (getitem ds w index))) \<le> nat (num_retries ds)"
proof (cases "sampling_params ds index")
  case (Inl e)
  then show ?thesis by (simp add: getitem_def)
next
  case (Inr sp)
  obtain ds' tried' r where
    run: "retry_loop ds w sp (nat (num_retries ds)) 0 index [] = (ds', tried', r)"
    by (cases "retry_loop ds w sp (nat (num_retries ds)) 0 index []") auto
  from retry_loop_length [OF run] Inr run show ?thesis
    by (simp add: getitem_def)
qed







lemmas world_eval = train_ds16_def train_ds4_def test_ds16_def mk_ds_def base_cfg_def
  two_paths_def closed_world_def null_world_def null_decoded_def train_sp_def py_get_def

lemmas clip_eval = clip_ds_def mk_ds_def base_cfg_def long_path_def decoding_world_def
  good_decoded_def py_get_def




text \<open>
  C9. With \<open>num_retries < 8\<close> in train or val mode, an attempt whose container
  opens and whose validation of the decoded frames fails raises
  \<open>ZeroDivisionError\<close>: the loop ends there, with no further attempt.
\<close>

theorem small_budget_division_by_zero:
  assumes "mode ds = ''train'' \<or> mode ds = ''val''"
    and "int i < num_retries ds" and "num_retries ds < 8"
    and "py_get (path_to_videos ds) index = Inr p"
    and "get_video_container w i p = Some c"
    and "index \<in> set (video_meta ds) \<or> 5000000 \<le> length (video_meta ds)"
    and "load_kpts ds w index p = Inr (ds', store)"
    and "\<not> frames_valid (decode w i c (temporal_sample_index sp))"
  shows "attempt ds w sp i index = (ds', Raise ZeroDivisionError)
       \<and> retry_loop ds w sp (Suc left) i index tried = (ds', tried @ [index], Inl ZeroDivisionError)
       \<and> (i = 0 \<and> sampling_params ds index = Inr sp \<longrightarrow>
            getitem ds w index = (ds', [index], Inl ZeroDivisionError))"
proof -
  have u: "unchanged ds ds'" using assms(7) by (rule load_kpts_unchanged)
  have z: "num_retries ds' div 8 = 0" "mode ds' \<noteq> ''test''"
    using assms(1-3) u by (auto simp: unchanged_def)
  have a: "attempt ds w sp i index = (ds', Raise ZeroDivisionError)"
    using attempt_decode_failure [OF assms(4-8)] z by (simp add: after_decode_failure_def)
  have l: "retry_loop ds w sp (Suc left) i index tried = (ds', tried @ [index], Inl ZeroDivisionError)"
    using a by simp
  have g: "i = 0 \<and> sampling_params ds index = Inr sp \<longrightarrow>
            getitem ds w index = (ds', [index], Inl ZeroDivisionError)"
  proof (intro impI, elim conjE)
    assume i0: "i = 0" and sp: "sampling_params ds index = Inr sp"
    from assms(2) i0 obtain k where k: "nat (num_retries ds) = Suc k"
      by (cases "nat (num_retries ds)") auto
    show "getitem ds w index = (ds', [index], Inl ZeroDivisionError)"
      using a i0 sp k by (simp add: getitem_def)
  qed
  from a l g show ?thesis by blast
qed

theorem small_budget_division_by_zero_witness:
  "sampling_params train_ds4 0 = Inr train_sp
   \<and> get_video_container null_world 0 ''videos/a.mp4'' = Some 0
   \<and> frames (decode null_world 0 0 (- 1)) = None
   \<and> getitem train_ds4 null_world 0
       = (train_ds4\<lparr>kpts := [0 \<mapsto> box_store]\<rparr>, [0], Inl ZeroDivisionError)"
proof -
  have h: "mode train_ds4 = ''train'' \<or> mode train_ds4 = ''val''"
      "int 0 < num_retries train_ds4" "num_retries train_ds4 < 8"
      "py_get (path_to_videos train_ds4) 0 = Inr ''videos/a.mp4''"
      "get_video_container null_world 0 ''videos/a.mp4'' = Some 0"
      "0 \<in> set (video_meta train_ds4) \<or> 5000000 \<le> length (video_meta train_ds4)"
      "load_kpts train_ds4 null_world 0 ''videos/a.mp4''
         = Inr (train_ds4\<lparr>kpts := [0 \<mapsto> box_store]\<rparr>, box_store)"
      "\<not> frames_valid (decode null_world 0 0 (temporal_sample_index train_sp))"
    by (simp_all add: world_eval load_kpts_def frames_valid_def)
  have sp: "sampling_params train_ds4 0 = Inr train_sp"
    by (simp add: world_eval sampling_params_def train_params_def)
  have fr: "frames (decode null_world 0 0 (- 1)) = None"
    by (simp add: world_eval)
  from small_budget_division_by_zero [OF h] sp h(5) fr show ?thesis by simp
qed

lemma align_frames_missing_frame:
  "store (vid_name_of p) = Some per_frame \<Longrightarrow> frame_num \<in> set frame_nums \<Longrightarrow>
   per_frame (''frame'' @ str_int frame_num) = None \<Longrightarrow>
     \<exists>e. align_frames store p frame_nums = Inl e"
  by (induction frame_nums) (auto split: sum.splits option.splits)

text \<open>
  C10. After a successful decode the side file of the video is
  \<open>./data/video{ID}_kpts\<close>, with ID the characters of the path from position 40
  up to the last ten; it is read when the index is not yet in the cache, and
  cached under the index. A side file that cannot be read raises
  \<open>FileNotFoundError\<close>; a store without the key of the video (the file name
  with its last ten characters replaced by \<open>.mp4\<close>) or without the key of a
  decoded frame raises as well; each of these ends the fetch at once, with no
  further attempt.
\<close>

theorem side_file_failures_escape:
  assumes "py_get (path_to_videos ds) index = Inr p"
    and "get_video_container w i p = Some c"
    and "index \<in> set (video_meta ds) \<or> 5000000 \<le> length (video_meta ds)"
    and "frames_valid (decode w i c (temporal_sample_index sp))"
  shows "kpts_path p = ''./data/video'' @ drop 40 (take (length p - 10) p) @ ''_kpts''
       \<and> (kpts ds index = None \<and> pickle_file w (kpts_path p) = None \<longrightarrow>
            attempt ds w sp i index = (ds, Raise FileNotFoundError))
       \<and> (kpts ds index = None \<and> pickle_file w (kpts_path p) = Some store \<longrightarrow>
            fst (attempt ds w sp i index) = ds\<lparr>kpts := (kpts ds)(index \<mapsto> store)\<rparr>)
       \<and> (kpts ds index = Some store \<longrightarrow> fst (attempt ds w sp i index) = ds)
       \<and> (load_kpts ds w index p = Inr (ds', store)
            \<and> py_get (bbox_index (decode w i c (temporal_sample_index sp))) 0
                = Inr (frame_num # frame_nums)
            \<and> store (take (length (last (split_aux ''/'' [] p)) - 10)
                       (last (split_aux ''/'' [] p)) @ ''.mp4'') = None \<longrightarrow>
            attempt ds w sp i index = (ds', Raise KeyError))
       \<and> (load_kpts ds w index p = Inr (ds', store)
            \<and> py_get (bbox_index (decode w i c (temporal_sample_index sp))) 0
                = Inr (frame_num # frame_nums)
            \<and> store (take (length (last (split_aux ''/'' [] p)) - 10)
                       (last (split_aux ''/'' [] p)) @ ''.mp4'') = Some per_frame
            \<and> per_frame (''frame'' @ str_int frame_num) = None \<longrightarrow>
            attempt ds w sp i index = (ds', Raise KeyError))
       \<and> (load_kpts ds w index p = Inr (ds', store)
            \<and> py_get (bbox_index (decode w i c (temporal_sample_index sp))) 0 = Inr nums
            \<and> store (vid_name_of p) = Some per_frame
            \<and> (\<exists>n \<in> set nums. per_frame (''frame'' @ str_int n) = None) \<longrightarrow>
            (\<exists>e. attempt ds w sp i index = (ds', Raise e)))
       \<and> (\<forall>e ds1. attempt ds w sp i index = (ds1, Raise e) \<longrightarrow>
            retry_loop ds w sp (Suc left) i index tried = (ds1, tried @ [index], Inl e))"
proof -
  have path: "kpts_path p = ''./data/video'' @ drop 40 (take (length p - 10) p) @ ''_kpts''"
    by (simp add: kpts_path_def)
  have vn: "vid_name_of p = take (length (last (split_aux ''/'' [] p)) - 10)
                       (last (split_aux ''/'' [] p)) @ ''.mp4''"
    by (simp add: vid_name_of_def Let_def)
  have missing: "kpts ds index = None \<and> pickle_file w (kpts_path p) = None \<longrightarrow>
            attempt ds w sp i index = (ds, Raise FileNotFoundError)"
    using assms by (auto simp: attempt_def load_kpts_def)
  have loaded: "kpts ds index = None \<and> pickle_file w (kpts_path p) = Some store \<longrightarrow>
            fst (attempt ds w sp i index) = ds\<lparr>kpts := (kpts ds)(index \<mapsto> store)\<rparr>"
    using assms by (auto simp: attempt_def load_kpts_def)
  have cached: "kpts ds index = Some store \<longrightarrow> fst (attempt ds w sp i index) = ds"
    using assms by (auto simp: attempt_def load_kpts_def)
  have succ: "load_kpts ds w index p = Inr (ds', store) \<longrightarrow>
      attempt ds w sp i index =
        (ds', finish ds' store (decode w i c (temporal_sample_index sp)) index p)"
    using attempt_decode_success [OF assms(1-3) _ assms(4)] by blast
  have novid: "load_kpts ds w index p = Inr (ds', store)
            \<and> py_get (bbox_index (decode w i c (temporal_sample_index sp))) 0
                = Inr (frame_num # frame_nums)
            \<and> store (take (length (last (split_aux ''/'' [] p)) - 10)
                       (last (split_aux ''/'' [] p)) @ ''.mp4'') = None \<longrightarrow>
            attempt ds w sp i index = (ds', Raise KeyError)"
    using succ vn by (simp add: finish_def)
  have noframe: "load_kpts ds w index p = Inr (ds', store)
            \<and> py_get (bbox_index (decode w i c (temporal_sample_index sp))) 0
                = Inr (frame_num # frame_nums)
            \<and> store (take (length (last (split_aux ''/'' [] p)) - 10)
                       (last (split_aux ''/'' [] p)) @ ''.mp4'') = Some per_frame
            \<and> per_frame (''frame'' @ str_int frame_num) = None \<longrightarrow>
            attempt ds w sp i index = (ds', Raise KeyError)"
    using succ vn by (simp add: finish_def)
  have anyframe: "load_kpts ds w index p = Inr (ds', store)
            \<and> py_get (bbox_index (decode w i c (temporal_sample_index sp))) 0 = Inr nums
            \<and> store (vid_name_of p) = Some per_frame
            \<and> (\<exists>n \<in> set nums. per_frame (''frame'' @ str_int n) = None) \<longrightarrow>
            (\<exists>e. attempt ds w sp i index = (ds', Raise e))"
  proof (intro impI, elim conjE bexE)
    fix n
    assume h: "load_kpts ds w index p = Inr (ds', store)"
      "py_get (bbox_index (decode w i c (temporal_sample_index sp))) 0 = Inr nums"
      "store (vid_name_of p) = Some per_frame" "n \<in> set nums"
      "per_frame (''frame'' @ str_int n) = None"
    from align_frames_missing_frame [of store p per_frame n nums] h(3) h(4) h(5) obtain e where
      "align_frames store p nums = Inl e" by blast
    with succ h(1) h(2) show "\<exists>e. attempt ds w sp i index = (ds', Raise e)"
      by (simp add: finish_def)
  qed
  have esc: "\<forall>e ds1. attempt ds w sp i index = (ds1, Raise e) \<longrightarrow>
            retry_loop ds w sp (Suc left) i index tried = (ds1, tried @ [index], Inl e)"
    by simp
  from path missing loaded cached novid noframe anyframe esc show ?thesis by blast
qed

theorem side_file_failures_escape_witness:
  "kpts_path long_path = ''./data/video93_kpts''
   \<and> frames_valid (decode (decoding_world no_files) 0 0 (- 1))
   \<and> getitem clip_ds (decoding_world no_files) 0 = (clip_ds, [0], Inl FileNotFoundError)
   \<and> getitem clip_ds (decoding_world (files_with Map.empty)) 0
       = (clip_ds\<lparr>kpts := [0 \<mapsto> Map.empty]\<rparr>, [0], Inl KeyError)
   \<and> getitem clip_ds (decoding_world (files_with frameless_store)) 0
       = (clip_ds\<lparr>kpts := [0 \<mapsto> frameless_store]\<rparr>, [0], Inl KeyError)"
proof -
  have sp: "sampling_params clip_ds 0 = Inr train_sp"
    by (simp add: clip_eval train_sp_def sampling_params_def train_params_def)
  have n: "nat (num_retries clip_ds) = Suc 15"
    by (simp add: clip_eval)
  have kp: "kpts_path long_path = ''./data/video93_kpts''"
    by (simp add: kpts_path_def long_path_def)
  have vn: "take (length (last (split_aux ''/'' [] long_path)) - 10)
              (last (split_aux ''/'' [] long_path)) @ ''.mp4'' = ''video93.mp4''"
    by (simp add: long_path_def)
  have h: "py_get (path_to_videos clip_ds) 0 = Inr long_path"
      "\<And>files. get_video_container (decoding_world files) 0 long_path = Some 0"
      "0 \<in> set (video_meta clip_ds) \<or> 5000000 \<le> length (video_meta clip_ds)"
      "\<And>files. frames_valid (decode (decoding_world files) 0 0 (temporal_sample_index train_sp))"
      "\<And>files. py_get (bbox_index (decode (decoding_world files) 0 0
           (temporal_sample_index train_sp))) 0 = Inr (4 # [])"
    by (simp_all add: clip_eval frames_valid_def)
  have c: "kpts clip_ds 0 = None" by (simp add: clip_eval)
  have ke: "kpts clip_ds = Map.empty" by (simp add: clip_eval)
  have fv: "frames_valid (decode (decoding_world no_files) 0 0 (- 1))"
    by (simp add: clip_eval frames_valid_def)
  have f1: "pickle_file (decoding_world no_files) (kpts_path long_path) = None"
    by (simp add: clip_eval no_files_def)
  have a1: "attempt clip_ds (decoding_world no_files) train_sp 0 0
      = (clip_ds, Raise FileNotFoundError)"
    using side_file_failures_escape [where ds = clip_ds and index = 0 and p = long_path
        and w = "decoding_world no_files" and i = 0 and c = 0 and sp = train_sp] h c f1
    by blast
  have g1: "getitem clip_ds (decoding_world no_files) 0 = (clip_ds, [0], Inl FileNotFoundError)"
    using retry_loop_raise [OF a1, of 15 "[]"] sp n by (simp add: getitem_def)
  have l2: "load_kpts clip_ds (decoding_world (files_with Map.empty)) 0 long_path
      = Inr (clip_ds\<lparr>kpts := [0 \<mapsto> Map.empty]\<rparr>, Map.empty)"
    using ke kp by (simp add: load_kpts_def decoding_world_def files_with_def)
  have a2: "attempt clip_ds (decoding_world (files_with Map.empty)) train_sp 0 0
      = (clip_ds\<lparr>kpts := [0 \<mapsto> Map.empty]\<rparr>, Raise KeyError)"
    using side_file_failures_escape [where ds = clip_ds and index = 0 and p = long_path
        and w = "decoding_world (files_with Map.empty)" and i = 0 and c = 0 and sp = train_sp
        and ds' = "clip_ds\<lparr>kpts := [0 \<mapsto> Map.empty]\<rparr>" and store = Map.empty
        and frame_num = 4 and frame_nums = "[]"] h l2 vn
    by simp
  have g2: "getitem clip_ds (decoding_world (files_with Map.empty)) 0
       = (clip_ds\<lparr>kpts := [0 \<mapsto> Map.empty]\<rparr>, [0], Inl KeyError)"
    using retry_loop_raise [OF a2, of 15 "[]"] sp n by (simp add: getitem_def)
  have l3: "load_kpts clip_ds (decoding_world (files_with frameless_store)) 0 long_path
      = Inr (clip_ds\<lparr>kpts := [0 \<mapsto> frameless_store]\<rparr>, frameless_store)"
    using ke kp by (simp add: load_kpts_def decoding_world_def files_with_def)
  have s3: "frameless_store ''video93.mp4'' = Some Map.empty"
    by (simp add: frameless_store_def)
  have a3: "attempt clip_ds (decoding_world (files_with frameless_store)) train_sp 0 0
      = (clip_ds\<lparr>kpts := [0 \<mapsto> frameless_store]\<rparr>, Raise KeyError)"
    using side_file_failures_escape [where ds = clip_ds and index = 0 and p = long_path
        and w = "decoding_world (files_with frameless_store)" and i = 0 and c = 0
        and sp = train_sp
        and ds' = "clip_ds\<lparr>kpts := [0 \<mapsto> frameless_store]\<rparr>"
        and store = frameless_store and frame_num = 4 and frame_nums = "[]"
        and per_frame = Map.empty] h l3 vn s3
    by simp
  have g3: "getitem clip_ds (decoding_world (files_with frameless_store)) 0
       = (clip_ds\<lparr>kpts := [0 \<mapsto> frameless_store]\<rparr>, [0], Inl KeyError)"
    using retry_loop_raise [OF a3, of 15 "[]"] sp n by (simp add: getitem_def)
  from kp fv g1 g2 g3 show ?thesis by blast
qed

section \<open>Exhaustion of the retry budget\<close>

lemma closed_attempt:
  "attempt train_ds16 closed_world train_sp i 0 =
     (train_ds16, Continue (if i = 15 then 1 else 0))"
  by (simp add: attempt_def after_container_failure_def replace_index_def randint_def
        world_eval)

text \<open>
  What holds of the exhaustion: a fetch makes at most \<open>num_retries\<close> attempts;
  on a constructed dataset with \<open>num_retries \<ge> 1\<close> and a valid requested index,
  if every attempt fails (the container is not acquired, or the decoded frame
  list is null or has a null entry; in the second case the mode is test or
  \<open>num_retries \<ge> 8\<close>, and the side file of each video can be read), the fetch
  raises the exhaustion error after exactly \<open>num_retries\<close> attempts, naming a
  valid index and its path with the counter \<open>num_retries - 1\<close>; in test mode
  that index is the requested one, on which every attempt was made. A container
  that is not acquired never raises out of the attempt.
\<close>

lemma exhaustion_after_all_attempts:
  assumes "constructed ds" and "valid_index ds index"
    and "sampling_params ds index = Inr sp"
    and "1 \<le> num_retries ds"
    and "\<forall>i index'. valid_index ds index' \<longrightarrow>
           (case get_video_container w i (path_to_videos ds ! nat index') of
              None \<Rightarrow> True
            | Some c \<Rightarrow> \<not> frames_valid (decode w i c (temporal_sample_index sp)))"
    and "(\<forall>i p. get_video_container w i p = None)
         \<or> ((mode ds = ''test'' \<or> 8 \<le> num_retries ds)
            \<and> (\<forall>index'. valid_index ds index' \<longrightarrow>
                  pickle_file w (kpts_path (path_to_videos ds ! nat index')) \<noteq> None))"
  shows "(\<forall>w' j. length (fst (snd (getitem ds w' j))) \<le> nat (num_retries ds))
       \<and> (\<exists>ds' tried index'.
             getitem ds w index
               = (ds', tried,
                  Inl (FetchError index' (path_to_videos ds ! nat index')
                         (nat (num_retries ds) - 1)))
           \<and> length tried = nat (num_retries ds)
           \<and> valid_index ds index'
           \<and> (mode ds = ''test'' \<longrightarrow> index' = index \<and> set tried = {index}))
       \<and> (\<forall>w' sp' i j. valid_index ds j
             \<and> get_video_container w' i (path_to_videos ds ! nat j) = None \<longrightarrow>
             (\<exists>j'. attempt ds w' sp' i j = (ds, Continue j')))"
proof -
  have bound: "\<forall>w' j. length (fst (snd (getitem ds w' j))) \<le> nat (num_retries ds)"
    by (simp add: getitem_length)
  from retry_loop_exhausts [OF assms(1,2,5,6), of "nat (num_retries ds)" 0 "[]"]
  obtain ds' extra index' where
    run: "retry_loop ds w sp (nat (num_retries ds)) 0 index []
             = (ds', [] @ extra, Inl (exhausted ds' (0 + nat (num_retries ds)) index'))"
    and rest: "length extra = nat (num_retries ds)" "valid_index ds index'" "unchanged ds ds'"
      "mode ds = ''test'' \<longrightarrow> index' = index \<and> set extra \<subseteq> {index}"
    by blast
  have same: "path_to_videos ds' = path_to_videos ds" "valid_index ds' index'"
    using rest(2,3) by (simp_all add: unchanged_def valid_index_def num_videos_def)
  have pos: "0 < nat (num_retries ds)" using assms(4) by simp
  have ex: "exhausted ds' (0 + nat (num_retries ds)) index'
      = FetchError index' (path_to_videos ds ! nat index') (nat (num_retries ds) - 1)"
    using exhausted_valid [OF same(2) pos] same(1) by simp
  have ne: "extra \<noteq> []" using rest(1) pos by auto
  have tset: "mode ds = ''test'' \<longrightarrow> index' = index \<and> set extra = {index}"
    using rest(4) ne by (cases extra) auto
  have gi: "getitem ds w index
      = (ds', extra,
         Inl (FetchError index' (path_to_videos ds ! nat index') (nat (num_retries ds) - 1)))"
    using assms(3) run ex by (simp add: getitem_def)
  have main: "\<exists>ds' tried index'.
             getitem ds w index
               = (ds', tried,
                  Inl (FetchError index' (path_to_videos ds ! nat index')
                         (nat (num_retries ds) - 1)))
           \<and> length tried = nat (num_retries ds)
           \<and> valid_index ds index'
           \<and> (mode ds = ''test'' \<longrightarrow> index' = index \<and> set tried = {index})"
    using gi rest(1,2) tset by blast
  have ne_paths: "path_to_videos ds \<noteq> []" using assms(1) by (simp add: constructed_def)
  have quiet: "\<forall>w' sp' i j. valid_index ds j
             \<and> get_video_container w' i (path_to_videos ds ! nat j) = None \<longrightarrow>
             (\<exists>j'. attempt ds w' sp' i j = (ds, Continue j'))"
  proof (intro allI impI, elim conjE)
    fix w' :: world and sp' :: sampling and i :: nat and j :: int
    assume vj: "valid_index ds j"
      and none: "get_video_container w' i (path_to_videos ds ! nat j) = None"
    from after_container_failure_continue [OF ne_paths vj, of w' i] obtain j' where
      "after_container_failure ds w' i j = Continue j'" by blast
    with attempt_container_failure [OF py_get_valid [OF vj] none, of sp']
    show "\<exists>j'. attempt ds w' sp' i j = (ds, Continue j')" by simp
  qed
  from bound main quiet show ?thesis by blast
qed

lemma exhaustion_after_all_attempts_instance:
  "constructed train_ds16 \<and> valid_index train_ds16 0
   \<and> sampling_params train_ds16 0 = Inr train_sp
   \<and> (\<forall>i p. get_video_container closed_world i p = None)
   \<and> (\<exists>ds' tried index'.
         getitem train_ds16 closed_world 0
           = (ds', tried, Inl (FetchError index' (path_to_videos train_ds16 ! nat index') 15))
       \<and> length tried = 16)
   \<and> (\<forall>i c t. \<not> frames_valid (decode null_world i c t))
   \<and> (\<forall>p. pickle_file null_world p \<noteq> None)
   \<and> (\<exists>ds' tried index'.
         getitem train_ds16 null_world 0
           = (ds', tried, Inl (FetchError index' (path_to_videos train_ds16 ! nat index') 15))
       \<and> length tried = 16)"
proof -
  have con: "constructed train_ds16"
    by (simp add: constructed_def world_eval)
  have vi: "valid_index train_ds16 0"
    by (simp add: valid_index_def num_videos_def world_eval)
  have sp: "sampling_params train_ds16 0 = Inr train_sp"
    by (simp add: world_eval sampling_params_def train_params_def)
  have n: "1 \<le> num_retries train_ds16" "nat (num_retries train_ds16) = 16"
      "8 \<le> num_retries train_ds16"
    by (simp_all add: world_eval)
  have closed: "\<forall>i p. get_video_container closed_world i p = None"
    by (simp add: closed_world_def)
  have h5: "\<forall>i index'. valid_index train_ds16 index' \<longrightarrow>
           (case get_video_container closed_world i (path_to_videos train_ds16 ! nat index') of
              None \<Rightarrow> True
            | Some c \<Rightarrow> \<not> frames_valid (decode closed_world i c (temporal_sample_index train_sp)))"
    using closed by simp
  have h6: "(\<forall>i p. get_video_container closed_world i p = None)
         \<or> ((mode train_ds16 = ''test'' \<or> 8 \<le> num_retries train_ds16)
            \<and> (\<forall>index'. valid_index train_ds16 index' \<longrightarrow>
                  pickle_file closed_world
                    (kpts_path (path_to_videos train_ds16 ! nat index')) \<noteq> None))"
    using closed by simp
  have first: "\<exists>ds' tried index'.
         getitem train_ds16 closed_world 0
           = (ds', tried, Inl (FetchError index' (path_to_videos train_ds16 ! nat index') 15))
       \<and> length tried = 16"
    using exhaustion_after_all_attempts [OF con vi sp n(1) h5 h6] n(2) by auto
  have nulls: "\<forall>i c t. \<not> frames_valid (decode null_world i c t)"
    by (simp add: null_world_def null_decoded_def frames_valid_def)
  have files: "\<forall>p. pickle_file null_world p \<noteq> None"
    by (simp add: null_world_def)
  have g5: "\<forall>i index'. valid_index train_ds16 index' \<longrightarrow>
           (case get_video_container null_world i (path_to_videos train_ds16 ! nat index') of
              None \<Rightarrow> True
            | Some c \<Rightarrow> \<not> frames_valid (decode null_world i c (temporal_sample_index train_sp)))"
    using nulls by (simp split: option.splits)
  have g6: "(\<forall>i p. get_video_container null_world i p = None)
         \<or> ((mode train_ds16 = ''test'' \<or> 8 \<le> num_retries train_ds16)
            \<and> (\<forall>index'. valid_index train_ds16 index' \<longrightarrow>
                  pickle_file null_world
                    (kpts_path (path_to_videos train_ds16 ! nat index')) \<noteq> None))"
    using files n(3) by simp
  have second: "\<exists>ds' tried index'.
         getitem train_ds16 null_world 0
           = (ds', tried, Inl (FetchError index' (path_to_videos train_ds16 ! nat index') 15))
       \<and> length tried = 16"
    using exhaustion_after_all_attempts [OF con vi sp n(1) g5 g6] n(2) by auto
  from con vi sp closed first nulls files second show ?thesis by blast
qed

text \<open>
  C1. The exhaustion error is meant to name the video that failed. At this
  input it does not: in train mode with sixteen retries and two videos, no
  container is ever acquired and index 0 is requested; the random replacement
  drawn after the last failure is index 1. All sixteen attempts are made on
  index 0, and the error names index 1 and the path of video 1, which was never
  tried, with the counter 15.
\<close>

theorem exhaustion_message_index:
  "getitem train_ds16 closed_world 0
     = (train_ds16, [0, 0, 0, 0, 0, 0, 0, 0, 0, 0, 0, 0, 0, 0, 0, 0],
        Inl (FetchError 1 ''videos/b.mp4'' 15))"
proof -
  have sp: "sampling_params train_ds16 0 = Inr train_sp"
    by (simp add: world_eval sampling_params_def train_params_def)
  have n: "nat (num_retries train_ds16) = 16" by (simp add: world_eval)
  have ex: "\<And>k. exhausted train_ds16 (Suc k) 1 = FetchError 1 ''videos/b.mp4'' k"
    by (simp add: exhausted_def world_eval)
  show ?thesis
    by (simp add: getitem_def sp n eval_nat_numeral closed_attempt ex)
qed

end
